theory Spec2Isabelle
  imports Complex_Main
begin

text \<open>
  A shallow embedding of the employees table: the validator pipeline of
  \<^verbatim>\<open>fieldValidator.js\<close>, the default comparator and the sort engine of
  \<^verbatim>\<open>EmployeesTable\<close>, the lifecycle of \<^verbatim>\<open>InlineEditor\<close> and the listeners that the
  grid registers. The document is kept as far as the code reads and writes it (header
  classes, body rows and their cells, the controls of editors and of the form); a
  listener is a function from the state to the state, and a user event runs one
  listener to its end. The notifier is kept as the list of the notifications pushed.
\<close>

section \<open>Strings and numbers of the runtime\<close>

text \<open>
  A JavaScript string is a \<^typ>\<open>string\<close>; a character stands for one code unit below 256.
  Numbers are exact: a finite number is a rational, so the rounding of a decimal
  literal to a binary double and the overflow of a finite literal to an infinity are
  not part of the model.
\<close>

definition is_space :: "char \<Rightarrow> bool" where
  "is_space c \<longleftrightarrow>
     c \<in> set [CHR 0x09, CHR 0x0A, CHR 0x0B, CHR 0x0C, CHR 0x0D, CHR 0x20, CHR 0xA0]"

text \<open>\<^verbatim>\<open>String.prototype.trim\<close>.\<close>

definition trim :: "string \<Rightarrow> string" where
  "trim s = rev (dropWhile is_space (rev (dropWhile is_space s)))"

definition is_digit :: "char \<Rightarrow> bool" where
  "is_digit c \<longleftrightarrow> c \<in> set ''0123456789''"

fun index_of :: "char \<Rightarrow> string \<Rightarrow> nat" where
  "index_of c [] = 0"
| "index_of c (d # ds) = (if c = d then 0 else Suc (index_of c ds))"

definition digit_val :: "char \<Rightarrow> nat" where
  "digit_val c =
     (if c \<in> set ''0123456789'' then index_of c ''0123456789''
      else if c \<in> set ''abcdef'' then 10 + index_of c ''abcdef''
      else 10 + index_of c ''ABCDEF'')"

definition digits_val :: "nat \<Rightarrow> string \<Rightarrow> nat" where
  "digits_val base ds = foldl (\<lambda>n c. base * n + digit_val c) 0 ds"

datatype jsnum = NaN | PosInf | NegInf | Fin rat

fun isNaN :: "jsnum \<Rightarrow> bool" where
  "isNaN NaN = True"
| "isNaN _ = False"

fun isFinite :: "jsnum \<Rightarrow> bool" where
  "isFinite (Fin _) = True"
| "isFinite _ = False"

text \<open>\<^verbatim>\<open>a < b\<close> and \<^verbatim>\<open>a > b\<close> on numbers: false as soon as one side is NaN.\<close>

fun js_less :: "jsnum \<Rightarrow> jsnum \<Rightarrow> bool" where
  "js_less NaN _ = False"
| "js_less _ NaN = False"
| "js_less PosInf _ = False"
| "js_less _ NegInf = False"
| "js_less NegInf _ = True"
| "js_less _ PosInf = True"
| "js_less (Fin a) (Fin b) = (a < b)"

definition js_greater :: "jsnum \<Rightarrow> jsnum \<Rightarrow> bool" where
  "js_greater a b = js_less b a"

text \<open>
  The grammar of an unsigned decimal literal, read as the longest prefix of the string:
  digits, an optional fraction (\<^verbatim>\<open>5.\<close> and \<^verbatim>\<open>.5\<close> are literals, \<^verbatim>\<open>.\<close> is not)
  and an exponent when one is complete. The result is the value and the rest.
\<close>

definition scan_exponent :: "string \<Rightarrow> (int \<times> string) option" where
  "scan_exponent s =
     (case s of
        [] \<Rightarrow> None
      | e # t \<Rightarrow>
          if e \<in> set ''eE'' then
            (let neg = (t \<noteq> [] \<and> hd t = CHR ''-'');
                 u = (if t \<noteq> [] \<and> hd t \<in> set ''+-'' then tl t else t);
                 ds = takeWhile is_digit u
             in if ds = [] then None
                else Some ((if neg then - int (digits_val 10 ds) else int (digits_val 10 ds)),
                           dropWhile is_digit u))
          else None)"

definition scale10 :: "rat \<Rightarrow> int \<Rightarrow> rat" where
  "scale10 m e = (if e < 0 then m / 10 ^ nat (- e) else m * 10 ^ nat e)"

definition scan_decimal :: "string \<Rightarrow> (rat \<times> string) option" where
  "scan_decimal s =
     (let ip = takeWhile is_digit s;
          r1 = dropWhile is_digit s;
          dot = (r1 \<noteq> [] \<and> hd r1 = CHR ''.'');
          fp = (if dot then takeWhile is_digit (tl r1) else []);
          r2 = (if dot then dropWhile is_digit (tl r1) else r1)
      in if ip = [] \<and> fp = [] then None
         else
           (let m = of_nat (digits_val 10 ip) + of_nat (digits_val 10 fp) / 10 ^ length fp
            in case scan_exponent r2 of
                 None \<Rightarrow> Some (m, r2)
               | Some (e, r3) \<Rightarrow> Some (scale10 m e, r3)))"

definition starts_with :: "string \<Rightarrow> string \<Rightarrow> bool" where
  "starts_with p s \<longleftrightarrow> take (length p) s = p"

text \<open>\<^verbatim>\<open>parseFloat\<close>: leading white space, a sign, then the longest literal prefix.\<close>

definition parseFloat :: "string \<Rightarrow> jsnum" where
  "parseFloat s =
     (let t = dropWhile is_space s;
          neg = (t \<noteq> [] \<and> hd t = CHR ''-'');
          u = (if t \<noteq> [] \<and> hd t \<in> set ''+-'' then tl t else t)
      in if starts_with ''Infinity'' u then (if neg then NegInf else PosInf)
         else case scan_decimal u of
                None \<Rightarrow> NaN
              | Some (v, _) \<Rightarrow> Fin (if neg then - v else v))"

text \<open>
  \<^verbatim>\<open>Number(string)\<close>: the trimmed string is empty (the number 0), a binary, octal or
  hexadecimal integer without a sign, or a signed decimal literal that takes the whole
  string; anything else is NaN.
\<close>

definition non_decimal :: "string \<Rightarrow> nat option" where
  "non_decimal t =
     (case t of
        z # x # ds \<Rightarrow>
          if z = CHR ''0'' \<and> ds \<noteq> [] then
            (if x \<in> set ''xX'' \<and> list_all (\<lambda>c. c \<in> set ''0123456789abcdefABCDEF'') ds
               then Some (digits_val 16 ds)
             else if x \<in> set ''oO'' \<and> list_all (\<lambda>c. c \<in> set ''01234567'') ds
               then Some (digits_val 8 ds)
             else if x \<in> set ''bB'' \<and> list_all (\<lambda>c. c \<in> set ''01'') ds
               then Some (digits_val 2 ds)
             else None)
          else None
      | _ \<Rightarrow> None)"

definition Number_js :: "string \<Rightarrow> jsnum" where
  "Number_js s =
     (let t = trim s
      in if t = [] then Fin 0
         else case non_decimal t of
                Some n \<Rightarrow> Fin (of_nat n)
              | None \<Rightarrow>
                  (let neg = (hd t = CHR ''-'');
                       u = (if hd t \<in> set ''+-'' then tl t else t)
                   in if u = ''Infinity'' then (if neg then NegInf else PosInf)
                      else case scan_decimal u of
                             Some (v, []) \<Rightarrow> Fin (if neg then - v else v)
                           | _ \<Rightarrow> NaN))"

text \<open>The decimal text of an integer, as a template literal prints it.\<close>

fun nat_digits :: "nat \<Rightarrow> string" where
  "nat_digits n =
     (if n < 10 then [''0123456789'' ! n]
      else nat_digits (n div 10) @ [''0123456789'' ! (n mod 10)])"

declare nat_digits.simps [simp del]

definition ToString_int :: "int \<Rightarrow> string" where
  "ToString_int i = (if i < 0 then CHR ''-'' # nat_digits (nat (- i)) else nat_digits (nat i))"

section \<open>The validator pipeline (fieldValidator.js)\<close>

text \<open>
  What a rule function returns: \<^verbatim>\<open>{success, message}\<close>, the message absent in
  \<^verbatim>\<open>{success: true}\<close>.
\<close>

record rule_result =
  rr_success :: bool
  rr_message :: "string option"

text \<open>\<^verbatim>\<open>BaseValidationResult\<close>.\<close>

record BaseValidationResult =
  success :: bool
  message :: string

text \<open>
  A rule is a name and its \<^verbatim>\<open>func\<close>, which may be no function at all; a function
  returns a result or throws (\<open>Inl\<close> holds the \<^verbatim>\<open>message\<close> of what it threw). A
  function that returns no object makes the read of \<^verbatim>\<open>result.success\<close> throw, inside
  the same \<^verbatim>\<open>try\<close>: this is a throw too.
\<close>

datatype rule_func = NotFunction | Func "string \<Rightarrow> string + rule_result"

record rule =
  name :: string
  func :: rule_func

text \<open>The bound field: a control whose \<^verbatim>\<open>value\<close> may be null or undefined.\<close>

record control =
  fvalue :: "string option"

text \<open>\<^verbatim>\<open>Array.prototype.join\<close>: an undefined element prints as the empty string.\<close>

fun join :: "string \<Rightarrow> string option list \<Rightarrow> string" where
  "join sep [] = []"
| "join sep [m] = (case m of None \<Rightarrow> [] | Some t \<Rightarrow> t)"
| "join sep (m # ms) = (case m of None \<Rightarrow> [] | Some t \<Rightarrow> t) @ sep @ join sep ms"

text \<open>
  The body of the \<^verbatim>\<open>forEach\<close> callback in \<^verbatim>\<open>validate\<close>, on the two variables it
  updates (\<^verbatim>\<open>success\<close> and \<^verbatim>\<open>messages\<close>).
\<close>

definition rule_step :: "string \<Rightarrow> bool \<times> string option list \<Rightarrow> rule \<Rightarrow> bool \<times> string option list" where
  "rule_step v acc r =
     (case func r of
        NotFunction \<Rightarrow> (False, snd acc @ [Some (''Validation '' @ name r @ '' is not defined'')])
      | Func f \<Rightarrow>
          (case f v of
             Inr res \<Rightarrow>
               if \<not> rr_success res then (False, snd acc @ [rr_message res]) else acc
           | Inl e \<Rightarrow> (False, snd acc @ [Some (''Validation '' @ name r @ '' failed: '' @ e)])))"

definition validate :: "rule list \<Rightarrow> control option \<Rightarrow> BaseValidationResult" where
  "validate rules fld =
     (case fld of
        None \<Rightarrow> \<lparr>success = False, message = ''Field not bound''\<rparr>
      | Some f \<Rightarrow>
          (let v = trim (case fvalue f of None \<Rightarrow> [] | Some s \<Rightarrow> s);
               acc = foldl (rule_step v) (True, []) rules
           in \<lparr>success = fst acc, message = join ''; '' (snd acc)\<rparr>))"

text \<open>\<^verbatim>\<open>MinStrLenValidator\<close>: one rule, \<^verbatim>\<open>minLen\<close>.\<close>

definition MinStrLenValidator :: "string \<Rightarrow> int \<Rightarrow> rule list" where
  "MinStrLenValidator fieldName minLenValue =
     [\<lparr>name = ''minLen'',
       func = Func (\<lambda>v.
         if v = [] \<or> int (length v) < minLenValue
         then Inr \<lparr>rr_success = False,
                   rr_message = Some (''Minimum '' @ fieldName @ '' length is '' @ ToString_int minLenValue)\<rparr>
         else Inr \<lparr>rr_success = True, rr_message = None\<rparr>)\<rparr>]"

text \<open>\<^verbatim>\<open>NumScopeValidator\<close>: the rules \<^verbatim>\<open>min\<close> and \<^verbatim>\<open>max\<close>, in this order.\<close>

definition num_min_rule :: "string \<Rightarrow> int \<Rightarrow> string \<Rightarrow> string + rule_result" where
  "num_min_rule fieldName minValue v =
     (let num = Number_js v
      in if isNaN num
         then Inr \<lparr>rr_success = False, rr_message = Some (fieldName @ '' must be a number'')\<rparr>
         else if js_less num (Fin (of_int minValue))
         then Inr \<lparr>rr_success = False,
                   rr_message = Some (''Minimum '' @ fieldName @ '' is '' @ ToString_int minValue)\<rparr>
         else Inr \<lparr>rr_success = True, rr_message = None\<rparr>)"

definition num_max_rule :: "string \<Rightarrow> int \<Rightarrow> string \<Rightarrow> string + rule_result" where
  "num_max_rule fieldName maxValue v =
     (let num = Number_js v
      in if isNaN num
         then Inr \<lparr>rr_success = False, rr_message = Some (fieldName @ '' must be a number'')\<rparr>
         else if js_greater num (Fin (of_int maxValue))
         then Inr \<lparr>rr_success = False,
                   rr_message = Some (''Maximum '' @ fieldName @ '' is '' @ ToString_int maxValue)\<rparr>
         else Inr \<lparr>rr_success = True, rr_message = None\<rparr>)"

definition NumScopeValidator :: "string \<Rightarrow> int \<Rightarrow> int \<Rightarrow> rule list" where
  "NumScopeValidator fieldName minValue maxValue =
     [\<lparr>name = ''min'', func = Func (num_min_rule fieldName minValue)\<rparr>,
      \<lparr>name = ''max'', func = Func (num_max_rule fieldName maxValue)\<rparr>]"

text \<open>
  \<^verbatim>\<open>NotEmptyValidator\<close>: \<^verbatim>\<open>validate\<close> hands every rule a string, so of the rule's
  branches on the shape of the value only the string branch can run.
\<close>

definition NotEmptyValidator :: "string \<Rightarrow> rule list" where
  "NotEmptyValidator fieldName =
     [\<lparr>name = ''notEmpty'',
       func = Func (\<lambda>v.
         if trim v \<noteq> [] then Inr \<lparr>rr_success = True, rr_message = None\<rparr>
         else Inr \<lparr>rr_success = False,
                   rr_message = Some (''Field '' @ [CHR 0x27] @ '' '' @ fieldName @ '' should not be empty'')\<rparr>)\<rparr>]"

section \<open>The sort engine's default comparator (EmployeesTable)\<close>

text \<open>
  Regular expressions over characters, matched by derivatives. A match of
  \<^verbatim>\<open>/^r$/\<close> against a string is a match of the whole string.
\<close>

datatype rx = Zero | Eps | Cls "char list" | Seq rx rx | Alt rx rx | Star rx

definition Opt :: "rx \<Rightarrow> rx" where
  "Opt r = Alt r Eps"

definition Plus :: "rx \<Rightarrow> rx" where
  "Plus r = Seq r (Star r)"

fun nullable :: "rx \<Rightarrow> bool" where
  "nullable Zero = False"
| "nullable Eps = True"
| "nullable (Cls cs) = False"
| "nullable (Seq r s) = (nullable r \<and> nullable s)"
| "nullable (Alt r s) = (nullable r \<or> nullable s)"
| "nullable (Star r) = True"

fun deriv :: "char \<Rightarrow> rx \<Rightarrow> rx" where
  "deriv c Zero = Zero"
| "deriv c Eps = Zero"
| "deriv c (Cls cs) = (if c \<in> set cs then Eps else Zero)"
| "deriv c (Seq r s) =
     (if nullable r then Alt (Seq (deriv c r) s) (deriv c s) else Seq (deriv c r) s)"
| "deriv c (Alt r s) = Alt (deriv c r) (deriv c s)"
| "deriv c (Star r) = Seq (deriv c r) (Star r)"

fun rmatch :: "rx \<Rightarrow> string \<Rightarrow> bool" where
  "rmatch r [] = nullable r"
| "rmatch r (c # cs) = rmatch (deriv c r) cs"

text \<open>\<^verbatim>\<open>/^-?\d+([.,]\d+)?$/\<close>\<close>

definition numeric_re :: rx where
  "numeric_re =
     Seq (Opt (Cls ''-''))
       (Seq (Plus (Cls ''0123456789''))
          (Opt (Seq (Cls ''.,'') (Plus (Cls ''0123456789'')))))"

text \<open>\<^verbatim>\<open>s.replace(/\s|,/g, '')\<close>\<close>

definition strip_spaces_commas :: "string \<Rightarrow> string" where
  "strip_spaces_commas s = filter (\<lambda>c. \<not> (is_space c \<or> c = CHR '','')) s"

fun the_fin :: "jsnum \<Rightarrow> rat" where
  "the_fin (Fin x) = x"
| "the_fin _ = 0"

text \<open>
  \<^verbatim>\<open>_defaultComparator(a, b, sortType)\<close>. The cell values it is called on are
  strings (what \<^verbatim>\<open>_extractCellValue\<close> returns). \<open>lc a b\<close> stands for the runtime's
  \<^verbatim>\<open>a.localeCompare(b, undefined, {sensitivity: 'base'})\<close>, a parameter of the model.
  Every result is a finite number.
\<close>

definition defaultComparator :: "(string \<Rightarrow> string \<Rightarrow> int) \<Rightarrow> string \<Rightarrow> string \<Rightarrow> int \<Rightarrow> rat" where
  "defaultComparator lc a b sortType =
     (let normA = trim a;
          normB = trim b
      in if normA = [] \<and> normB = [] then 0
         else if normA = [] then - of_int sortType
         else if normB = [] then of_int sortType
         else
           (let numA = parseFloat (strip_spaces_commas normA);
                numB = parseFloat (strip_spaces_commas normB);
                bothNumeric =
                  (isFinite numA \<and> isFinite numB \<and>
                   rmatch numeric_re normA \<and> rmatch numeric_re normB)
            in if bothNumeric then (the_fin numA - the_fin numB) * of_int sortType
               else of_int (lc normA normB) * of_int sortType))"

section \<open>The field schema registry (EmployeesTable.FIELDS)\<close>

datatype generator = InputFieldGenerator | SelectFieldGenerator

datatype formatter_class = MoneyAmountFormatter

text \<open>An element of \<^verbatim>\<open>args\<close>: a name, or the array of a select's options.\<close>

datatype arg = Str string | Arr "string list"

record field_config =
  GeneratorClass :: generator
  tag :: string
  args :: "arg list"
  required :: bool
  ftype :: string
  validator :: "rule list option"
  formatter :: "formatter_class option"

definition FIELDS :: "field_config list" where
  "FIELDS =
     [\<lparr>GeneratorClass = InputFieldGenerator, tag = ''input'', args = [Str ''name''],
       required = True, ftype = ''text'',
       validator = Some (MinStrLenValidator ''name'' 4), formatter = None\<rparr>,
      \<lparr>GeneratorClass = InputFieldGenerator, tag = ''input'', args = [Str ''position''],
       required = True, ftype = ''text'',
       validator = Some (NotEmptyValidator ''position''), formatter = None\<rparr>,
      \<lparr>GeneratorClass = SelectFieldGenerator, tag = ''select'',
       args = [Str ''office'',
               Arr [''Tokyo'', ''Singapore'', ''London'', ''New York'', ''Edinburgh'',
                    ''San Francisco'']],
       required = True, ftype = ''select'',
       validator = None, formatter = None\<rparr>,
      \<lparr>GeneratorClass = InputFieldGenerator, tag = ''input'', args = [Str ''age''],
       required = True, ftype = ''number'',
       validator = Some (NumScopeValidator ''age'' 18 90), formatter = None\<rparr>,
      \<lparr>GeneratorClass = InputFieldGenerator, tag = ''input'', args = [Str ''salary''],
       required = True, ftype = ''number'',
       validator = Some (NotEmptyValidator ''salary''), formatter = Some MoneyAmountFormatter\<rparr>]"

section \<open>The grid: document, objects and runtime\<close>

text \<open>
  The functions of the runtime that the code calls and the model cannot compute:
  \<^verbatim>\<open>localeCompare\<close> with base sensitivity, and the text \<^verbatim>\<open>Intl.NumberFormat\<close>
  prints for a number (\<open>Inl\<close> when it throws).
\<close>

record runtime =
  localeCompare :: "string \<Rightarrow> string \<Rightarrow> int"
  intl_format :: "rat \<Rightarrow> string + string"

datatype notification_type = NOTIFICATION_TYPE_SUCCESS | NOTIFICATION_TYPE_ERROR

type_synonym notification = "string \<times> string \<times> notification_type"

text \<open>
  The cells of a body row are nodes with an identity: a data cell, or the container
  of an inline editor (the \<^verbatim>\<open>td\<close> that holds the editor's input). A validator is bound
  to a control: a control of the form, or the input of an inline editor.
\<close>

datatype node = Td nat | EditorTd nat

datatype elem = FormField nat | EditorInput nat

text \<open>
  An \<^verbatim>\<open>InlineEditor\<close> object whose constructor went through: its origin cell, the
  value of its input, the validator attached to the input (the index of its schema
  entry, whose validator object it is) and whether the \<^verbatim>\<open>focusout\<close> listener is
  still registered.
\<close>

record inline_editor =
  originElement :: nat
  input_value :: string
  input_validator :: "nat option"
  focusout_listener :: bool

text \<open>
  What \<^verbatim>\<open>_activeEditor\<close> refers to when it is not null or undefined: an editor
  whose constructor returned at the misconfiguration guard (no field of it is set), or
  a built one.
\<close>

datatype active = Inert | Live nat

type_synonym comparator = "string \<Rightarrow> string \<Rightarrow> int \<Rightarrow> jsnum"

text \<open>
  The state of one \<^verbatim>\<open>EmployeesTable\<close> and of the document it owns. The header is the
  class list of each \<^verbatim>\<open>th\<close>; of a data cell's classes only \<^verbatim>\<open>hidden\<close> is kept;
  \<open>vfield k\<close> is the \<^verbatim>\<open>_field\<close> of the validator object of schema entry \<open>k\<close>;
  \<open>COLUMN_INDEX\<close> and \<open>SORT\<close> are the two fields of \<^verbatim>\<open>_sorterState\<close>;
  \<open>notifications\<close> are the calls of \<^verbatim>\<open>pushNotification\<close>, in order; \<open>uncaught\<close> the
  errors that left an event handler.
\<close>

record grid =
  header :: "string list list"
  tbody :: "node list list"
  cell_text :: "nat \<Rightarrow> string"
  cell_hidden :: "nat \<Rightarrow> bool"
  editors :: "nat \<Rightarrow> inline_editor"
  next_id :: nat
  vfield :: "nat \<Rightarrow> elem option"
  form_value :: "nat \<Rightarrow> string"
  COLUMN_INDEX :: int
  SORT :: int
  customComparators :: "int \<Rightarrow> comparator option"
  activeEditor :: "active option"
  notifications :: "notification list"
  uncaught :: "string list"

definition pushNotification :: "string \<Rightarrow> string \<Rightarrow> notification_type \<Rightarrow> grid \<Rightarrow> grid" where
  "pushNotification title description ty st =
     st\<lparr>notifications := notifications st @ [(title, description, ty)]\<rparr>"

subsection \<open>The sort engine\<close>

definition classList_remove :: "string \<Rightarrow> string list \<Rightarrow> string list" where
  "classList_remove c cl = filter (\<lambda>x. x \<noteq> c) cl"

definition classList_add :: "string \<Rightarrow> string list \<Rightarrow> string list" where
  "classList_add c cl = (if c \<in> set cl then cl else cl @ [c])"

text \<open>\<^verbatim>\<open>STATE_CLASS[s]\<close>, undefined off the three states.\<close>

definition STATE_CLASS :: "int \<Rightarrow> string option" where
  "STATE_CLASS s =
     (if s = 1 then Some ''sorted-asc''
      else if s = - 1 then Some ''sorted-desc''
      else if s = 0 then Some ''sorted-none''
      else None)"

text \<open>\<^verbatim>\<open>Object.values(EmployeesTable.STATE_CLASS)\<close>\<close>

definition STATE_CLASS_values :: "string list" where
  "STATE_CLASS_values = [''sorted-none'', ''sorted-asc'', ''sorted-desc'']"

text \<open>
  The callback of the \<^verbatim>\<open>forEach\<close> over the header cells in \<^verbatim>\<open>_sortByColumn\<close>;
  \<^verbatim>\<open>classList.add(undefined)\<close> adds the token \<^verbatim>\<open>undefined\<close>.
\<close>

definition prepare_th :: "int \<Rightarrow> int \<Rightarrow> nat \<times> string list \<Rightarrow> string list" where
  "prepare_th column sortState ith =
     (let th = foldl (\<lambda>cl className. classList_remove className cl) (snd ith) STATE_CLASS_values
      in if int (fst ith) = column
         then classList_add (case STATE_CLASS sortState of Some c \<Rightarrow> c | None \<Rightarrow> ''undefined'') th
         else th)"

definition node_text :: "grid \<Rightarrow> node \<Rightarrow> string" where
  "node_text st n = (case n of Td c \<Rightarrow> cell_text st c | EditorTd e \<Rightarrow> [])"

text \<open>\<^verbatim>\<open>_extractCellValue(row, colIndex)\<close>\<close>

definition extractCellValue :: "grid \<Rightarrow> node list \<Rightarrow> int \<Rightarrow> string" where
  "extractCellValue st row colIndex =
     trim (if 0 \<le> colIndex \<and> nat colIndex < length row
           then node_text st (row ! nat colIndex) else [])"

text \<open>
  \<^verbatim>\<open>Array.prototype.sort\<close> with a comparator, as a stable insertion sort: an item
  moves behind the items that the comparator puts before it (result above zero; NaN
  counts as zero).
\<close>

fun js_positive :: "jsnum \<Rightarrow> bool" where
  "js_positive (Fin x) = (0 < x)"
| "js_positive PosInf = True"
| "js_positive _ = False"

fun insert_sorted :: "('a \<Rightarrow> 'a \<Rightarrow> jsnum) \<Rightarrow> 'a \<Rightarrow> 'a list \<Rightarrow> 'a list" where
  "insert_sorted cmp x [] = [x]"
| "insert_sorted cmp x (y # ys) =
     (if js_positive (cmp x y) then y # insert_sorted cmp x ys else x # y # ys)"

definition array_sort :: "('a \<Rightarrow> 'a \<Rightarrow> jsnum) \<Rightarrow> 'a list \<Rightarrow> 'a list" where
  "array_sort cmp xs = foldr (insert_sorted cmp) xs []"

text \<open>\<^verbatim>\<open>_sortByColumn(columnIndex)\<close>, \<open>None\<close> for a call without the argument.\<close>

definition sortByColumn :: "runtime \<Rightarrow> int option \<Rightarrow> grid \<Rightarrow> grid" where
  "sortByColumn rt columnIndex st =
     (let colIndex = (case columnIndex of None \<Rightarrow> 0 | Some c \<Rightarrow> c);
          ths = map (prepare_th (COLUMN_INDEX st) (SORT st)) (enumerate 0 (header st));
          compareFunc =
            (case customComparators st colIndex of
               Some f \<Rightarrow> f
             | None \<Rightarrow> (\<lambda>a b s. Fin (defaultComparator (localeCompare rt) a b s)));
          items = array_sort
            (\<lambda>rowA rowB. compareFunc (extractCellValue st rowA colIndex)
                                       (extractCellValue st rowB colIndex) (SORT st))
            (tbody st)
      in st\<lparr>header := ths, tbody := items\<rparr>)"

text \<open>\<^verbatim>\<open>_sortByColumnHandler(colIndex)\<close>\<close>

definition sortByColumnHandler :: "runtime \<Rightarrow> nat \<Rightarrow> grid \<Rightarrow> grid" where
  "sortByColumnHandler rt colIndex st =
     sortByColumn rt (Some (int colIndex))
       (if COLUMN_INDEX st = int colIndex
        then st\<lparr>SORT := SORT st * (- 1)\<rparr>
        else st\<lparr>COLUMN_INDEX := int colIndex, SORT := 1\<rparr>)"

subsection \<open>Validators bound to controls\<close>

definition elem_value :: "grid \<Rightarrow> elem \<Rightarrow> string" where
  "elem_value st el =
     (case el of FormField i \<Rightarrow> form_value st i | EditorInput e \<Rightarrow> input_value (editors st e))"

text \<open>
  \<^verbatim>\<open>validate()\<close> on the validator object of schema entry \<open>k\<close>: its rules, on the
  control its \<^verbatim>\<open>_field\<close> refers to at the moment of the call.
\<close>

definition validate_bound :: "grid \<Rightarrow> nat \<Rightarrow> BaseValidationResult" where
  "validate_bound st k =
     validate (case validator (FIELDS ! k) of Some rules \<Rightarrow> rules | None \<Rightarrow> [])
       (map_option (\<lambda>el. \<lparr>fvalue = Some (elem_value st el)\<rparr>) (vfield st k))"

text \<open>\<^verbatim>\<open>bindField(field)\<close> on the validator object of schema entry \<open>k\<close>.\<close>

definition bindField :: "nat \<Rightarrow> elem \<Rightarrow> grid \<Rightarrow> grid" where
  "bindField k el st = st\<lparr>vfield := (vfield st)(k \<mapsto> el)\<rparr>"

subsection \<open>The inline editor (InlineEditor)\<close>

text \<open>The messages of the TypeErrors the code can run into, as V8 words them.\<close>

definition TypeError_firstChild :: string where
  "TypeError_firstChild = ''Cannot read properties of undefined (reading '' @ [CHR 0x27] @ ''firstChild'' @ [CHR 0x27] @ '')''"

definition TypeError_forEach :: string where
  "TypeError_forEach = ''Cannot read properties of undefined (reading '' @ [CHR 0x27] @ ''forEach'' @ [CHR 0x27] @ '')''"

text \<open>
  The completion callback the grid hands to every editor it builds (the arrow function
  in the \<^verbatim>\<open>dblclick\<close> listener).
\<close>

definition onComplete :: "runtime \<Rightarrow> grid \<Rightarrow> grid" where
  "onComplete rt st =
     (let st1 = st\<lparr>activeEditor := None\<rparr>
      in if COLUMN_INDEX st1 \<ge> 0 then sortByColumn rt (Some (COLUMN_INDEX st1)) st1 else st1)"

text \<open>\<^verbatim>\<open>complete()\<close> of the built editor \<open>e\<close>.\<close>

definition complete :: "runtime \<Rightarrow> nat \<Rightarrow> grid \<Rightarrow> grid" where
  "complete rt e st =
     (let ed = editors st e;
          checked =
            (case input_validator ed of
               None \<Rightarrow> (True, st)
             | Some k \<Rightarrow>
                 (let validationResult = validate_bound st k
                  in (success validationResult,
                      if \<not> success validationResult
                      then pushNotification ''Validation failed'' (message validationResult)
                             NOTIFICATION_TYPE_ERROR st
                      else st)))
      in if \<not> fst checked then snd checked
         else
           (let st1 = pushNotification ''Success'' ''New row was successfully added.''
                        NOTIFICATION_TYPE_SUCCESS (snd checked);
                st2 = st1\<lparr>cell_text := (cell_text st1)(originElement ed := input_value ed)\<rparr>;
                st3 = st2\<lparr>tbody := map (removeAll (EditorTd e)) (tbody st2)\<rparr>;
                st4 = st3\<lparr>cell_hidden := (cell_hidden st3)(originElement ed := False)\<rparr>
            in onComplete rt st4))"

text \<open>
  \<^verbatim>\<open>complete()\<close> of whatever \<^verbatim>\<open>_activeEditor\<close> refers to. On an editor without a
  target element, reading \<^verbatim>\<open>this.targetElement.firstChild\<close> throws inside the
  \<^verbatim>\<open>try\<close>; the \<^verbatim>\<open>catch\<close> reports the error and the method returns.
\<close>

definition complete_active :: "runtime \<Rightarrow> active \<Rightarrow> grid \<Rightarrow> grid" where
  "complete_active rt a st =
     (case a of
        Inert \<Rightarrow> pushNotification ''Error'' TypeError_firstChild NOTIFICATION_TYPE_ERROR st
      | Live e \<Rightarrow> complete rt e st)"

text \<open>
  The target of a double click in the body: a data cell, or an element without a cell
  index (the input of an editor, a row).
\<close>

datatype target = Cell nat | NoCell

fun position_of :: "'a \<Rightarrow> 'a list \<Rightarrow> nat" where
  "position_of x [] = 0"
| "position_of x (y # ys) = (if x = y then 0 else Suc (position_of x ys))"

text \<open>\<^verbatim>\<open>originElement.cellIndex\<close>: undefined off a cell, \<open>-1\<close> for a cell in no row.\<close>

definition cellIndex :: "grid \<Rightarrow> target \<Rightarrow> int option" where
  "cellIndex st t =
     (case t of
        NoCell \<Rightarrow> None
      | Cell c \<Rightarrow>
          (case find (\<lambda>row. Td c \<in> set row) (tbody st) of
             None \<Rightarrow> Some (- 1)
           | Some row \<Rightarrow> Some (int (position_of (Td c) row))))"

text \<open>\<^verbatim>\<open>fields[i]\<close> as the index of the entry, \<open>None\<close> when it is undefined.\<close>

definition field_at :: "field_config list \<Rightarrow> int option \<Rightarrow> nat option" where
  "field_at fs i =
     (case i of
        None \<Rightarrow> None
      | Some j \<Rightarrow> if 0 \<le> j \<and> nat j < length fs then Some (nat j) else None)"

text \<open>
  \<^verbatim>\<open>buildTargetElement\<close> calls \<^verbatim>\<open>generateElement(false, ...args)\<close>: the entries of
  \<^verbatim>\<open>args\<close> land on the parameters \<^verbatim>\<open>required, type, name, options\<close>. The input
  generator builds its input from them; the select generator calls
  \<^verbatim>\<open>options.forEach\<close>, which throws when \<^verbatim>\<open>args\<close> has no fourth entry or one
  that is no array. So no entry of \<^verbatim>\<open>FIELDS\<close> gives an inline editor with a select:
  the control of every built editor is an input.
\<close>

definition buildTargetElement :: "field_config \<Rightarrow> string + unit" where
  "buildTargetElement fieldConfiguration =
     (case GeneratorClass fieldConfiguration of
        InputFieldGenerator \<Rightarrow> Inr ()
      | SelectFieldGenerator \<Rightarrow>
          if length (args fieldConfiguration) \<le> 3 then Inl TypeError_forEach
          else (case args fieldConfiguration ! 3 of
                  Arr opts \<Rightarrow> Inr ()
                | Str s \<Rightarrow> Inl ''options.forEach is not a function''))"

fun insert_after :: "'a \<Rightarrow> 'a \<Rightarrow> 'a list \<Rightarrow> 'a list" where
  "insert_after x new [] = []"
| "insert_after x new (y # ys) = (if x = y then y # new # ys else y # insert_after x new ys)"

text \<open>
  The constructor \<^verbatim>\<open>new InlineEditor(originElement, FIELDS, onComplete)\<close>: it throws
  (\<open>Inl\<close>), or returns the object with the document as it left it.
\<close>

definition InlineEditor :: "target \<Rightarrow> grid \<Rightarrow> string + (active \<times> grid)" where
  "InlineEditor t st =
     (case (field_at FIELDS (cellIndex st t), t) of
        (Some k, Cell c) \<Rightarrow>
          (case buildTargetElement (FIELDS ! k) of
             Inl err \<Rightarrow> Inl err
           | Inr _ \<Rightarrow>
               (let e = next_id st;
                    bound = (validator (FIELDS ! k) \<noteq> None);
                    ed = \<lparr>originElement = c, input_value = cell_text st c,
                          input_validator = (if bound then Some k else None),
                          focusout_listener = True\<rparr>;
                    st1 = st\<lparr>editors := (editors st)(e := ed),
                             next_id := Suc e,
                             cell_hidden := (cell_hidden st)(c := True),
                             tbody := map (insert_after (Td c) (EditorTd e)) (tbody st)\<rparr>
                in Inr (Live e, if bound then bindField k (EditorInput e) st1 else st1)))
      | _ \<Rightarrow> Inr (Inert, st))"

subsection \<open>The grid controller (EmployeesTable)\<close>

text \<open>The \<^verbatim>\<open>dblclick\<close> listener of the table body.\<close>

definition dblclick :: "runtime \<Rightarrow> target \<Rightarrow> grid \<Rightarrow> grid" where
  "dblclick rt t st =
     (let st1 = (case activeEditor st of None \<Rightarrow> st | Some a \<Rightarrow> complete_active rt a st)
      in case InlineEditor t st1 of
           Inl err \<Rightarrow> st1\<lparr>uncaught := uncaught st1 @ [err]\<rparr>
         | Inr (a, st2) \<Rightarrow> st2\<lparr>activeEditor := Some a\<rparr>)"

text \<open>
  \<^verbatim>\<open>MoneyAmountFormatter.format\<close> on a string, and \<^verbatim>\<open>applyFormatter\<close>, which hands
  the raw value on when the formatter throws.
\<close>

definition MoneyAmountFormatter_format :: "runtime \<Rightarrow> string \<Rightarrow> string + string" where
  "MoneyAmountFormatter_format rt v =
     (if v = [] then Inr []
      else
        (let number = Number_js (filter (\<lambda>c. c \<in> set ''0123456789,.-'') v)
         in if \<not> isFinite number then Inr v else intl_format rt (the_fin number)))"

definition applyFormatter :: "runtime \<Rightarrow> field_config \<Rightarrow> string \<Rightarrow> string" where
  "applyFormatter rt fieldDef v =
     (case formatter fieldDef of
        None \<Rightarrow> v
      | Some MoneyAmountFormatter \<Rightarrow>
          (case MoneyAmountFormatter_format rt v of Inl err \<Rightarrow> v | Inr s \<Rightarrow> s))"

text \<open>
  \<^verbatim>\<open>validateEmployee(employeeFields)\<close>: the fields are the controls of the form, one
  per schema entry and in its order; control \<open>i\<close> carries the validator object of
  entry \<open>i\<close> when the entry has one.
\<close>

definition validate_field :: "bool \<times> grid \<Rightarrow> nat \<Rightarrow> bool \<times> grid" where
  "validate_field acc i =
     (case validator (FIELDS ! i) of
        None \<Rightarrow> acc
      | Some _ \<Rightarrow>
          (let validationResult = validate_bound (snd acc) i
           in (fst acc \<and> success validationResult,
               if \<not> success validationResult
               then pushNotification ''Validation failed'' (message validationResult)
                      NOTIFICATION_TYPE_ERROR (snd acc)
               else snd acc)))"

definition validateEmployee :: "grid \<Rightarrow> bool \<times> grid" where
  "validateEmployee st =
     (let acc = foldl validate_field (True, st) [0..<length FIELDS]
      in if fst acc
         then (True, pushNotification ''Success'' ''New row was successfully added.''
                       NOTIFICATION_TYPE_SUCCESS (snd acc))
         else acc)"

text \<open>
  \<^verbatim>\<open>_buildEmployeeRow\<close>: the names of the schema entries are distinct, so the control
  found by the name of entry \<open>i\<close> is control \<open>i\<close> of the form.
\<close>

definition buildEmployeeRow :: "runtime \<Rightarrow> grid \<Rightarrow> string list" where
  "buildEmployeeRow rt st =
     map (\<lambda>i. applyFormatter rt (FIELDS ! i) (form_value st i)) [0..<length FIELDS]"

definition appendRow :: "string list \<Rightarrow> grid \<Rightarrow> grid" where
  "appendRow texts st =
     (let n = next_id st
      in st\<lparr>tbody := tbody st @ [map Td [n..<n + length texts]],
            cell_text := (\<lambda>c. if n \<le> c \<and> c < n + length texts then texts ! (c - n)
                               else cell_text st c),
            cell_hidden := (\<lambda>c. if n \<le> c \<and> c < n + length texts then False
                                 else cell_hidden st c),
            next_id := n + length texts\<rparr>)"

text \<open>\<^verbatim>\<open>form.reset()\<close>: an input goes back to the empty string, a select to its first option.\<close>

definition reset_value :: "field_config \<Rightarrow> string" where
  "reset_value fieldDef =
     (case (GeneratorClass fieldDef, args fieldDef) of
        (SelectFieldGenerator, [nm, Arr (opt # opts)]) \<Rightarrow> opt
      | _ \<Rightarrow> [])"

text \<open>\<^verbatim>\<open>_saveEmployee(event)\<close>, the \<^verbatim>\<open>submit\<close> listener of the form.\<close>

definition saveEmployee :: "runtime \<Rightarrow> grid \<Rightarrow> grid" where
  "saveEmployee rt st =
     (let checked = validateEmployee st
      in if fst checked
         then
           (let st1 = appendRow (buildEmployeeRow rt st) (snd checked);
                st2 = sortByColumn rt (Some (COLUMN_INDEX st1)) st1
            in st2\<lparr>form_value := (\<lambda>i. if i < length FIELDS then reset_value (FIELDS ! i)
                                          else form_value st2 i)\<rparr>)
         else snd checked)"

text \<open>
  The constructor, from the table found in the document (the class lists of its
  header cells and the texts of its body cells) and the comparator overrides.
\<close>

fun number_rows :: "nat \<Rightarrow> 'a list list \<Rightarrow> node list list" where
  "number_rows n [] = []"
| "number_rows n (r # rs) = map Td [n..<n + length r] # number_rows (n + length r) rs"

definition EmployeesTable :: "string list list \<Rightarrow> string list list \<Rightarrow> (int \<times> comparator) list \<Rightarrow> grid" where
  "EmployeesTable ths rows customComparators' =
     \<lparr>header = ths,
      tbody = number_rows 0 rows,
      cell_text = (\<lambda>c. if c < length (concat rows) then concat rows ! c else []),
      cell_hidden = (\<lambda>c. False),
      editors = (\<lambda>e. \<lparr>originElement = 0, input_value = [], input_validator = None,
                       focusout_listener = False\<rparr>),
      next_id = length (concat rows),
      vfield = (\<lambda>k. if k < length FIELDS \<and> validator (FIELDS ! k) \<noteq> None
                     then Some (FormField k) else None),
      form_value = (\<lambda>i. if i < length FIELDS then reset_value (FIELDS ! i) else []),
      COLUMN_INDEX = - 1,
      SORT = 0,
      customComparators = foldl (\<lambda>m ic. m(fst ic \<mapsto> snd ic)) (\<lambda>i. None) customComparators',
      activeEditor = None,
      notifications = [],
      uncaught = []\<rparr>"

subsection \<open>User events\<close>

text \<open>
  One user event runs one listener to its end. \<open>TypeInto e v\<close> and \<open>FormType i v\<close>
  are the user changing the value of an editor's input and of a control of the form;
  \<open>FocusOut e\<close> and \<open>KeyEnter e\<close> reach the input of editor \<open>e\<close> while its container
  is in the document. Row selection by a single click touches none of the state kept
  here and is left out.
\<close>

datatype event =
    DblClick target
  | FocusOut nat
  | KeyEnter nat
  | TypeInto nat string
  | HeaderClick nat
  | FormType nat string
  | Submit

definition in_document :: "grid \<Rightarrow> nat \<Rightarrow> bool" where
  "in_document st e \<longleftrightarrow> list_ex (\<lambda>row. EditorTd e \<in> set row) (tbody st)"

definition step :: "runtime \<Rightarrow> grid \<Rightarrow> event \<Rightarrow> grid" where
  "step rt st ev =
     (case ev of
        DblClick t \<Rightarrow> dblclick rt t st
      | FocusOut e \<Rightarrow>
          if in_document st e \<and> focusout_listener (editors st e) then complete rt e st else st
      | KeyEnter e \<Rightarrow>
          if in_document st e
          then complete rt e
                 (st\<lparr>editors := (editors st)(e := (editors st e)\<lparr>focusout_listener := False\<rparr>)\<rparr>)
          else st
      | TypeInto e v \<Rightarrow>
          if in_document st e
          then st\<lparr>editors := (editors st)(e := (editors st e)\<lparr>input_value := v\<rparr>)\<rparr>
          else st
      | HeaderClick c \<Rightarrow> if c < length (header st) then sortByColumnHandler rt c st else st
      | FormType i v \<Rightarrow> if i < length FIELDS then st\<lparr>form_value := (form_value st)(i := v)\<rparr> else st
      | Submit \<Rightarrow> saveEmployee rt st)"

definition run :: "runtime \<Rightarrow> grid \<Rightarrow> event list \<Rightarrow> grid" where
  "run rt st evs = foldl (step rt) st evs"

text \<open>The editor controls that stand in the document.\<close>

definition editor_controls :: "grid \<Rightarrow> nat list" where
  "editor_controls st = concat (map (\<lambda>row. concat (map (\<lambda>n. case n of EditorTd e \<Rightarrow> [e] | Td c \<Rightarrow> []) row)) (tbody st))"

section \<open>Notions used to state the properties\<close>

text \<open>
  The outcome of one rule on a value, read off the three ways the pipeline treats a
  rule: a rule passes when its function returns a result whose \<^verbatim>\<open>success\<close> holds;
  otherwise its message is the function's own, or the pipeline's diagnostic for a
  missing function or for a function that threw.
\<close>

definition passes :: "string \<Rightarrow> rule \<Rightarrow> bool" where
  "passes v r \<longleftrightarrow>
     (case func r of
        NotFunction \<Rightarrow> False
      | Func g \<Rightarrow> (case g v of Inr res \<Rightarrow> rr_success res | Inl e \<Rightarrow> False))"

definition failure_message :: "string \<Rightarrow> rule \<Rightarrow> string option" where
  "failure_message v r =
     (case func r of
        NotFunction \<Rightarrow> Some (''Validation '' @ name r @ '' is not defined'')
      | Func g \<Rightarrow>
          (case g v of
             Inr res \<Rightarrow> rr_message res
           | Inl e \<Rightarrow> Some (''Validation '' @ name r @ '' failed: '' @ e)))"

text \<open>
  The language of a regular expression, to tie the matcher to what the pattern means.
\<close>

inductive_set star :: "string set \<Rightarrow> string set" for A :: "string set" where
  star_nil: "[] \<in> star A"
| star_step: "u \<in> A \<Longrightarrow> v \<in> star A \<Longrightarrow> u @ v \<in> star A"

fun lang :: "rx \<Rightarrow> string set" where
  "lang Zero = {}"
| "lang Eps = {[]}"
| "lang (Cls cs) = {[c] | c. c \<in> set cs}"
| "lang (Seq r s) = {u @ v | u v. u \<in> lang r \<and> v \<in> lang s}"
| "lang (Alt r s) = lang r \<union> lang s"
| "lang (Star r) = star (lang r)"


text \<open>The sort classes among the classes of a header cell.\<close>

definition sort_classes :: "string list \<Rightarrow> string list" where
  "sort_classes cl = filter (\<lambda>c. c \<in> set STATE_CLASS_values) cl"

text \<open>The sort state has no active column and no direction, or an active column and a direction.\<close>

definition sorter_inv :: "grid \<Rightarrow> bool" where
  "sorter_inv st \<longleftrightarrow>
     (COLUMN_INDEX st = - 1 \<and> SORT st = 0) \<or>
     (0 \<le> COLUMN_INDEX st \<and> (SORT st = 1 \<or> SORT st = - 1))"

text \<open>The controls of the form whose validator rejects, in the order of the form.\<close>

definition failing_fields :: "grid \<Rightarrow> nat list" where
  "failing_fields st =
     filter (\<lambda>i. validator (FIELDS ! i) \<noteq> None \<and> \<not> success (validate_bound st i))
       [0..<length FIELDS]"

text \<open>
  A table for the examples: five header cells without classes and two rows, whose
  ten data cells are numbered 0 to 9 row by row.
\<close>

definition sample_table :: grid where
  "sample_table =
     EmployeesTable [[], [], [], [], []]
       [[''Alice Ray'', ''Engineer'', ''Tokyo'', ''30'', ''$1,000''],
        [''Bob Lee'', ''Manager'', ''London'', ''40'', ''$2,000'']] []"

section \<open>The validator pipeline: properties\<close>

lemma rule_step_cases:
  "rule_step v (s, ms) r =
     (if passes v r then (s, ms) else (False, ms @ [failure_message v r]))"
  by (simp add: rule_step_def passes_def failure_message_def split: rule_func.splits sum.splits)

lemma foldl_rule_step:
  "foldl (rule_step v) (s, ms) rules =
     (s \<and> list_all (passes v) rules,
      ms @ map (failure_message v) (filter (\<lambda>r. \<not> passes v r) rules))"
  by (induction rules arbitrary: s ms) (simp_all add: rule_step_cases)

text \<open>
  C5. \<^verbatim>\<open>validate()\<close> without a bound field returns the failure \<^verbatim>\<open>Field not bound\<close>.
  With a bound field it runs every rule on the trimmed value, in the order of the
  list and whatever the earlier rules gave: the success is the conjunction of all rule
  outcomes, the message is the messages of the failing rules, in rule order, joined
  with \<^verbatim>\<open>; \<close>. A rule whose function throws fails, with a message that carries the
  error text; \<^verbatim>\<open>validate\<close> itself always returns a result.
\<close>

theorem validate_pipeline:
  "validate rules None = \<lparr>success = False, message = ''Field not bound''\<rparr> \<and>
   (let v = trim (case fvalue f of None \<Rightarrow> [] | Some s \<Rightarrow> s)
    in validate rules (Some f) =
         \<lparr>success = list_all (passes v) rules,
          message = join ''; '' (map (failure_message v) (filter (\<lambda>r. \<not> passes v r) rules))\<rparr> \<and>
       (\<forall>r g e. func r = Func g \<and> g v = Inl e \<longrightarrow>
          \<not> passes v r \<and>
          failure_message v r = Some (''Validation '' @ name r @ '' failed: '' @ e)))"
  by (simp add: validate_def Let_def foldl_rule_step passes_def failure_message_def)

theorem validate_pipeline_witness:
  "validate [\<lparr>name = ''boom'', func = Func (\<lambda>v. Inl ''broken'')\<rparr>,
             \<lparr>name = ''gone'', func = NotFunction\<rparr>,
             \<lparr>name = ''min'', func = Func (num_min_rule ''age'' 18)\<rparr>,
             \<lparr>name = ''max'', func = Func (num_max_rule ''age'' 90)\<rparr>]
     (Some \<lparr>fvalue = Some '' 7 ''\<rparr>) =
   \<lparr>success = False,
    message = ''Validation boom failed: broken; Validation gone is not defined; Minimum age is 18''\<rparr>"
proof -
  have t: "trim '' 7 '' = ''7''"
    by (simp add: trim_def is_space_def)
  have a: "num_min_rule ''age'' 18 ''7'' =
      Inr \<lparr>rr_success = False, rr_message = Some ''Minimum age is 18''\<rparr>"
    by code_simp
  have b: "num_max_rule ''age'' 90 ''7'' = Inr \<lparr>rr_success = True, rr_message = None\<rparr>"
    by code_simp
  show ?thesis
    using validate_pipeline
      [of "[\<lparr>name = ''boom'', func = Func (\<lambda>v. Inl ''broken'')\<rparr>,
            \<lparr>name = ''gone'', func = NotFunction\<rparr>,
            \<lparr>name = ''min'', func = Func (num_min_rule ''age'' 18)\<rparr>,
            \<lparr>name = ''max'', func = Func (num_max_rule ''age'' 90)\<rparr>]"
          "\<lparr>fvalue = Some '' 7 ''\<rparr>"]
    by (simp add: t a b passes_def failure_message_def)
qed

lemma dropWhile_all: "list_all P v \<Longrightarrow> dropWhile P v = []"
  by (induction v) auto

lemma trim_spaces: "list_all is_space v \<Longrightarrow> trim v = []"
  by (simp add: trim_def dropWhile_all)

lemma Number_js_empty: "Number_js [] = Fin 0"
  by (simp add: Number_js_def trim_def)

text \<open>
  C9. The validator of the age column, \<^verbatim>\<open>NumScopeValidator('age', 18, 90)\<close>: the value
  17 fails the min rule and 91 the max rule, each with its range message; 18 and 90
  pass both rules; \<^verbatim>\<open>abc\<close> fails both rules with the message for a value that is
  not a number. In each rule, for any bounds, a value that is not a number gets that
  message: the test for it comes before the comparison with the bound.
\<close>

theorem num_scope_bounds:
  "num_min_rule ''age'' 18 ''17'' = Inr \<lparr>rr_success = False, rr_message = Some ''Minimum age is 18''\<rparr> \<and>
   num_max_rule ''age'' 90 ''91'' = Inr \<lparr>rr_success = False, rr_message = Some ''Maximum age is 90''\<rparr> \<and>
   validate (NumScopeValidator ''age'' 18 90) (Some \<lparr>fvalue = Some ''17''\<rparr>) =
     \<lparr>success = False, message = ''Minimum age is 18''\<rparr> \<and>
   validate (NumScopeValidator ''age'' 18 90) (Some \<lparr>fvalue = Some ''91''\<rparr>) =
     \<lparr>success = False, message = ''Maximum age is 90''\<rparr> \<and>
   validate (NumScopeValidator ''age'' 18 90) (Some \<lparr>fvalue = Some ''18''\<rparr>) =
     \<lparr>success = True, message = []\<rparr> \<and>
   validate (NumScopeValidator ''age'' 18 90) (Some \<lparr>fvalue = Some ''90''\<rparr>) =
     \<lparr>success = True, message = []\<rparr> \<and>
   validate (NumScopeValidator ''age'' 18 90) (Some \<lparr>fvalue = Some ''abc''\<rparr>) =
     \<lparr>success = False, message = ''age must be a number; age must be a number''\<rparr> \<and>
   validator (FIELDS ! 3) = Some (NumScopeValidator ''age'' 18 90) \<and>
   (\<forall>nm mn mx v. isNaN (Number_js v) \<longrightarrow>
      num_min_rule nm mn v = Inr \<lparr>rr_success = False, rr_message = Some (nm @ '' must be a number'')\<rparr> \<and>
      num_max_rule nm mx v = Inr \<lparr>rr_success = False, rr_message = Some (nm @ '' must be a number'')\<rparr>)"
proof -
  have a: "num_min_rule ''age'' 18 ''17'' = Inr \<lparr>rr_success = False, rr_message = Some ''Minimum age is 18''\<rparr>"
    by code_simp
  have b: "num_max_rule ''age'' 90 ''91'' = Inr \<lparr>rr_success = False, rr_message = Some ''Maximum age is 90''\<rparr>"
    by code_simp
  have c: "validate (NumScopeValidator ''age'' 18 90) (Some \<lparr>fvalue = Some ''17''\<rparr>) =
     \<lparr>success = False, message = ''Minimum age is 18''\<rparr>" by code_simp
  have d: "validate (NumScopeValidator ''age'' 18 90) (Some \<lparr>fvalue = Some ''91''\<rparr>) =
     \<lparr>success = False, message = ''Maximum age is 90''\<rparr>" by code_simp
  have e: "validate (NumScopeValidator ''age'' 18 90) (Some \<lparr>fvalue = Some ''18''\<rparr>) =
     \<lparr>success = True, message = []\<rparr>" by code_simp
  have f: "validate (NumScopeValidator ''age'' 18 90) (Some \<lparr>fvalue = Some ''90''\<rparr>) =
     \<lparr>success = True, message = []\<rparr>" by code_simp
  have g: "validate (NumScopeValidator ''age'' 18 90) (Some \<lparr>fvalue = Some ''abc''\<rparr>) =
     \<lparr>success = False, message = ''age must be a number; age must be a number''\<rparr>" by code_simp
  have k: "validator (FIELDS ! 3) = Some (NumScopeValidator ''age'' 18 90)"
    by (simp add: FIELDS_def)
  have h: "\<forall>nm mn mx v. isNaN (Number_js v) \<longrightarrow>
      num_min_rule nm mn v = Inr \<lparr>rr_success = False, rr_message = Some (nm @ '' must be a number'')\<rparr> \<and>
      num_max_rule nm mx v = Inr \<lparr>rr_success = False, rr_message = Some (nm @ '' must be a number'')\<rparr>"
    by (simp add: num_min_rule_def num_max_rule_def)
  from a b c d e f g k h show ?thesis by blast
qed

theorem num_scope_bounds_witness:
  "isNaN (Number_js ''abc'') \<and>
   num_min_rule ''age'' 18 ''abc'' =
     Inr \<lparr>rr_success = False, rr_message = Some ''age must be a number''\<rparr> \<and>
   num_max_rule ''age'' 90 ''abc'' =
     Inr \<lparr>rr_success = False, rr_message = Some ''age must be a number''\<rparr>"
proof -
  have n: "isNaN (Number_js ''abc'')" by code_simp
  from num_scope_bounds have
    "isNaN (Number_js ''abc'') \<longrightarrow>
      num_min_rule ''age'' 18 ''abc'' = Inr \<lparr>rr_success = False, rr_message = Some (''age'' @ '' must be a number'')\<rparr> \<and>
      num_max_rule ''age'' 90 ''abc'' = Inr \<lparr>rr_success = False, rr_message = Some (''age'' @ '' must be a number'')\<rparr>"
    by blast
  with n show ?thesis by simp
qed

text \<open>
  C10. A numeric-range validator with a positive minimum (and bounds in order), on a
  field whose value is empty or white space only: the trimmed value is the empty
  string, which \<^verbatim>\<open>Number\<close> turns into 0, not into NaN. So the min rule fails with its
  range message, the max rule passes, and the result of \<^verbatim>\<open>validate\<close> carries the
  range message of the minimum alone.
\<close>

theorem empty_value_is_zero:
  assumes "0 < mn" and "mn \<le> mx" and "list_all is_space v"
  shows "Number_js (trim v) = Fin 0 \<and>
         num_min_rule nm mn (trim v) =
           Inr \<lparr>rr_success = False, rr_message = Some (''Minimum '' @ nm @ '' is '' @ ToString_int mn)\<rparr> \<and>
         num_max_rule nm mx (trim v) = Inr \<lparr>rr_success = True, rr_message = None\<rparr> \<and>
         validate (NumScopeValidator nm mn mx) (Some \<lparr>fvalue = Some v\<rparr>) =
           \<lparr>success = False, message = ''Minimum '' @ nm @ '' is '' @ ToString_int mn\<rparr>"
proof -
  have t: "trim v = []" using assms(3) by (rule trim_spaces)
  have mn: "num_min_rule nm mn [] =
           Inr \<lparr>rr_success = False, rr_message = Some (''Minimum '' @ nm @ '' is '' @ ToString_int mn)\<rparr>"
    using assms(1) by (simp add: num_min_rule_def Number_js_empty)
  have mx: "num_max_rule nm mx [] = Inr \<lparr>rr_success = True, rr_message = None\<rparr>"
    using assms(1,2) by (simp add: num_max_rule_def Number_js_empty js_greater_def)
  show ?thesis
    by (simp add: t Number_js_empty mn mx validate_def NumScopeValidator_def rule_step_def)
qed

theorem empty_value_is_zero_witness:
  "(0::int) < 18 \<and> (18::int) \<le> 90 \<and> list_all is_space ''  '' \<and>
   Number_js (trim ''  '') = Fin 0 \<and>
   validate (NumScopeValidator ''age'' 18 90) (Some \<lparr>fvalue = Some ''  ''\<rparr>) =
     \<lparr>success = False, message = ''Minimum age is 18''\<rparr>"
proof -
  have s: "list_all is_space ''  ''" by (simp add: is_space_def)
  have n: "ToString_int 18 = ''18''" by code_simp
  show ?thesis
    using empty_value_is_zero [of 18 90 "''  ''" "''age''", OF _ _ s] s n by simp
qed

section \<open>The default comparator: properties\<close>









lemma lang_Cls_iff: "w \<in> lang (Cls cs) \<longleftrightarrow> (\<exists>c. w = [c] \<and> c \<in> set cs)"
  by auto















section \<open>The sort engine: properties\<close>

subsection \<open>What a sort changes\<close>

lemma sortByColumn_header:
  "header (sortByColumn rt ci st) =
     map (prepare_th (COLUMN_INDEX st) (SORT st)) (enumerate 0 (header st))"
  by (simp add: sortByColumn_def Let_def)

lemma sortByColumn_sorter [simp]:
  "COLUMN_INDEX (sortByColumn rt ci st) = COLUMN_INDEX st"
  "SORT (sortByColumn rt ci st) = SORT st"
  by (simp_all add: sortByColumn_def Let_def)

lemma sortByColumn_rest [simp]:
  "cell_text (sortByColumn rt ci st) = cell_text st"
  "cell_hidden (sortByColumn rt ci st) = cell_hidden st"
  "editors (sortByColumn rt ci st) = editors st"
  "next_id (sortByColumn rt ci st) = next_id st"
  "vfield (sortByColumn rt ci st) = vfield st"
  "form_value (sortByColumn rt ci st) = form_value st"
  "customComparators (sortByColumn rt ci st) = customComparators st"
  "activeEditor (sortByColumn rt ci st) = activeEditor st"
  "notifications (sortByColumn rt ci st) = notifications st"
  "uncaught (sortByColumn rt ci st) = uncaught st"
  by (simp_all add: sortByColumn_def Let_def)

lemma sortByColumn_header_length [simp]:
  "length (header (sortByColumn rt ci st)) = length (header st)"
  by (simp add: sortByColumn_header)

lemma sortByColumn_header_nth:
  "i < length (header st) \<Longrightarrow>
   header (sortByColumn rt ci st) ! i = prepare_th (COLUMN_INDEX st) (SORT st) (i, header st ! i)"
  by (simp add: sortByColumn_header nth_enumerate_eq)

lemma removed_sort_classes:
  "sort_classes (foldl (\<lambda>cl className. classList_remove className cl) th STATE_CLASS_values) = []"
  by (auto simp: sort_classes_def STATE_CLASS_values_def classList_remove_def filter_empty_conv)

lemma sort_classes_add:
  "sort_classes th = [] \<Longrightarrow>
   sort_classes (classList_add c th) = (if c \<in> set STATE_CLASS_values then [c] else [])"
  by (auto simp: sort_classes_def classList_add_def filter_empty_conv)

lemma STATE_CLASS_member: "STATE_CLASS s = Some c \<Longrightarrow> c \<in> set STATE_CLASS_values"
  by (auto simp: STATE_CLASS_def STATE_CLASS_values_def split: if_splits)

lemma undefined_no_sort_class: "''undefined'' \<notin> set STATE_CLASS_values"
  by (simp add: STATE_CLASS_values_def)

lemma prepare_th_classes:
  "sort_classes (prepare_th col srt (i, th)) =
     (if int i = col then (case STATE_CLASS srt of Some c \<Rightarrow> [c] | None \<Rightarrow> []) else [])"
proof (cases "STATE_CLASS srt")
  case None
  then show ?thesis
    by (simp add: prepare_th_def Let_def removed_sort_classes sort_classes_add
        undefined_no_sort_class)
next
  case (Some c)
  then show ?thesis
    by (simp add: prepare_th_def Let_def removed_sort_classes sort_classes_add
        STATE_CLASS_member)
qed

text \<open>
  C4, as amended. After every sort operation a header cell other than the active
  column carries none of the three sort classes (the class \<^verbatim>\<open>sorted-none\<close> is not
  attached to it), and the header cell of the active column, when there is one,
  carries exactly one sort class, that of the current sort state. After a header
  click this is the class of the direction, \<^verbatim>\<open>sorted-asc\<close> or \<^verbatim>\<open>sorted-desc\<close>, on
  the clicked column and on no other.
\<close>

theorem header_sort_classes:
  "(\<forall>i < length (header st).
      sort_classes (header (sortByColumn rt ci st) ! i) =
        (if int i = COLUMN_INDEX st
         then (case STATE_CLASS (SORT st) of Some c \<Rightarrow> [c] | None \<Rightarrow> [])
         else [])) \<and>
   (c < length (header st) \<and> (COLUMN_INDEX st = int c \<longrightarrow> SORT st = 1 \<or> SORT st = - 1) \<longrightarrow>
    (\<forall>i < length (header st).
      sort_classes (header (sortByColumnHandler rt c st) ! i) =
        (if i = c
         then [if SORT (sortByColumnHandler rt c st) = 1 then ''sorted-asc'' else ''sorted-desc'']
         else [])))"
proof -
  have a: "\<forall>i < length (header st).
      sort_classes (header (sortByColumn rt ci st) ! i) =
        (if int i = COLUMN_INDEX st
         then (case STATE_CLASS (SORT st) of Some c \<Rightarrow> [c] | None \<Rightarrow> [])
         else [])" for ci st
    by (simp add: sortByColumn_header_nth prepare_th_classes)
  have b: "\<forall>i < length (header st).
      sort_classes (header (sortByColumnHandler rt c st) ! i) =
        (if i = c
         then [if SORT (sortByColumnHandler rt c st) = 1 then ''sorted-asc'' else ''sorted-desc'']
         else [])"
    if "COLUMN_INDEX st = int c \<longrightarrow> SORT st = 1 \<or> SORT st = - 1"
  proof (cases "COLUMN_INDEX st = int c")
    case True
    with that have "SORT st = 1 \<or> SORT st = - 1" by simp
    then show ?thesis
      using True a [of "st\<lparr>SORT := SORT st * (- 1)\<rparr>" "Some (int c)"]
      by (auto simp: sortByColumnHandler_def STATE_CLASS_def)
  next
    case False
    then show ?thesis
      using a [of "st\<lparr>COLUMN_INDEX := int c, SORT := 1\<rparr>" "Some (int c)"]
      by (auto simp: sortByColumnHandler_def STATE_CLASS_def)
  qed
  from a [of st ci] b show ?thesis by blast
qed


theorem header_sort_classes_witness:
  "\<forall>rt. sort_classes (header (sortByColumnHandler rt 0
            (EmployeesTable [[''name'', ''sorted-none''], [''sorted-none'']] [] [])) ! 0) = [''sorted-asc''] \<and>
        sort_classes (header (sortByColumnHandler rt 0
            (EmployeesTable [[''name'', ''sorted-none''], [''sorted-none'']] [] [])) ! 1) = []"
proof
  fix rt
  let ?g = "EmployeesTable [[''name'', ''sorted-none''], [''sorted-none'']] [] []"
  have s: "SORT (sortByColumnHandler rt 0 ?g) = 1"
    by (simp add: sortByColumnHandler_def EmployeesTable_def)
  have c: "COLUMN_INDEX ?g \<noteq> int 0"
    by (simp add: EmployeesTable_def)
  show "sort_classes (header (sortByColumnHandler rt 0 ?g) ! 0) = [''sorted-asc''] \<and>
        sort_classes (header (sortByColumnHandler rt 0 ?g) ! 1) = []"
    using header_sort_classes [of ?g rt None 0] s c
    by (simp add: EmployeesTable_def)
qed

text \<open>
  C4 as stated fails on the other header cells: with two header cells that carry
  \<^verbatim>\<open>sorted-none\<close> in the document, a click on the first leaves the second without
  any sort class. And a sort without an active column (the one that follows a form
  submission before any header click) leaves no header cell with a direction class.
\<close>

theorem header_none_class_counterexample:
  "(\<forall>rt. header (sortByColumnHandler rt 0
            (EmployeesTable [[''sorted-none''], [''sorted-none'']] [] [])) = [[''sorted-asc''], []]) \<and>
   (\<forall>rt. ''sorted-none'' \<notin> set (header (sortByColumnHandler rt 0
            (EmployeesTable [[''sorted-none''], [''sorted-none'']] [] [])) ! 1)) \<and>
   (\<forall>rt. header (sortByColumn rt (Some (- 1))
            (EmployeesTable [[''sorted-none''], [''sorted-none'']] [] [])) = [[], []])"
  by (simp add: sortByColumnHandler_def sortByColumn_def EmployeesTable_def prepare_th_def
      enumerate_eq_zip STATE_CLASS_def STATE_CLASS_values_def classList_remove_def
      classList_add_def upt_rec Let_def array_sort_def)

subsection \<open>The sort state under the listeners\<close>

lemma handler_sorter:
  "COLUMN_INDEX (sortByColumnHandler rt c st) = int c"
  "SORT (sortByColumnHandler rt c st) = (if COLUMN_INDEX st = int c then - SORT st else 1)"
  by (simp_all add: sortByColumnHandler_def)

lemma handler_header_length [simp]:
  "length (header (sortByColumnHandler rt c st)) = length (header st)"
  by (simp add: sortByColumnHandler_def)

lemma handler_inv: "sorter_inv st \<Longrightarrow> sorter_inv (sortByColumnHandler rt c st)"
  by (auto simp: sorter_inv_def handler_sorter)

lemma pushNotification_fields [simp]:
  "header (pushNotification t d k st) = header st"
  "tbody (pushNotification t d k st) = tbody st"
  "cell_text (pushNotification t d k st) = cell_text st"
  "cell_hidden (pushNotification t d k st) = cell_hidden st"
  "editors (pushNotification t d k st) = editors st"
  "next_id (pushNotification t d k st) = next_id st"
  "vfield (pushNotification t d k st) = vfield st"
  "form_value (pushNotification t d k st) = form_value st"
  "COLUMN_INDEX (pushNotification t d k st) = COLUMN_INDEX st"
  "SORT (pushNotification t d k st) = SORT st"
  "customComparators (pushNotification t d k st) = customComparators st"
  "activeEditor (pushNotification t d k st) = activeEditor st"
  "uncaught (pushNotification t d k st) = uncaught st"
  "notifications (pushNotification t d k st) = notifications st @ [(t, d, k)]"
  by (simp_all add: pushNotification_def)

lemma onComplete_sorter [simp]:
  "COLUMN_INDEX (onComplete rt st) = COLUMN_INDEX st"
  "SORT (onComplete rt st) = SORT st"
  "length (header (onComplete rt st)) = length (header st)"
  by (simp_all add: onComplete_def Let_def)

lemma complete_sorter [simp]:
  "COLUMN_INDEX (complete rt e st) = COLUMN_INDEX st"
  "SORT (complete rt e st) = SORT st"
  "length (header (complete rt e st)) = length (header st)"
  by (simp_all add: complete_def Let_def split: option.splits)

lemma complete_active_sorter [simp]:
  "COLUMN_INDEX (complete_active rt a st) = COLUMN_INDEX st"
  "SORT (complete_active rt a st) = SORT st"
  "length (header (complete_active rt a st)) = length (header st)"
  by (simp_all add: complete_active_def split: active.splits)

lemma InlineEditor_sorter:
  assumes "InlineEditor t st = Inr (a, st')"
  shows "COLUMN_INDEX st' = COLUMN_INDEX st" and "SORT st' = SORT st"
    and "length (header st') = length (header st)"
  using assms
  by (auto simp: InlineEditor_def bindField_def Let_def
      split: option.splits target.splits sum.splits)

lemma dblclick_sorter [simp]:
  "COLUMN_INDEX (dblclick rt t st) = COLUMN_INDEX st"
  "SORT (dblclick rt t st) = SORT st"
  "length (header (dblclick rt t st)) = length (header st)"
  by (auto simp: dblclick_def Let_def InlineEditor_sorter split: option.splits sum.splits)

lemma validate_fields_sorter:
  "COLUMN_INDEX (snd (foldl validate_field acc ks)) = COLUMN_INDEX (snd acc) \<and>
   SORT (snd (foldl validate_field acc ks)) = SORT (snd acc) \<and>
   header (snd (foldl validate_field acc ks)) = header (snd acc)"
  by (induction ks arbitrary: acc) (simp_all add: validate_field_def Let_def split: option.splits)

lemma validateEmployee_sorter [simp]:
  "COLUMN_INDEX (snd (validateEmployee st)) = COLUMN_INDEX st"
  "SORT (snd (validateEmployee st)) = SORT st"
  "header (snd (validateEmployee st)) = header st"
  by (simp_all add: validateEmployee_def Let_def validate_fields_sorter)

lemma saveEmployee_sorter [simp]:
  "COLUMN_INDEX (saveEmployee rt st) = COLUMN_INDEX st"
  "SORT (saveEmployee rt st) = SORT st"
  "length (header (saveEmployee rt st)) = length (header st)"
  by (simp_all add: saveEmployee_def Let_def appendRow_def)

lemma step_inv:
  assumes "sorter_inv st"
  shows "sorter_inv (step rt st ev)"
proof (cases ev)
  case (HeaderClick c)
  then show ?thesis using assms by (simp add: step_def handler_inv)
qed (use assms in \<open>simp_all add: step_def sorter_inv_def\<close>)

lemma step_header_length [simp]: "length (header (step rt st ev)) = length (header st)"
  by (cases ev) (simp_all add: step_def)

lemma run_inv: "sorter_inv st \<Longrightarrow> sorter_inv (run rt st evs)"
  unfolding run_def by (induction evs arbitrary: st) (simp_all add: step_inv)

lemma run_header_length [simp]: "length (header (run rt st evs)) = length (header st)"
  unfolding run_def by (induction evs arbitrary: st) simp_all

lemma run_snoc: "run rt st (evs @ [ev]) = step rt (run rt st evs) ev"
  by (simp add: run_def)

lemma EmployeesTable_inv: "sorter_inv (EmployeesTable ths rows cmps)"
  by (simp add: sorter_inv_def EmployeesTable_def)

lemma EmployeesTable_header [simp]: "header (EmployeesTable ths rows cmps) = ths"
  by (simp add: EmployeesTable_def)

lemma clicks_last:
  assumes "cs \<noteq> []" and "\<forall>c \<in> set cs. c < length (header st)"
  shows "COLUMN_INDEX (run rt st (map HeaderClick cs)) = int (last cs)"
  using assms
proof (induction cs rule: rev_induct)
  case Nil
  then show ?case by simp
next
  case (snoc c cs)
  then show ?case
    by (simp add: run_snoc step_def handler_sorter)
qed

text \<open>
  C7. A click on the header of the active column keeps the column and flips the sign
  of the direction; a click on another column makes it the active one, ascending.
  From the state the constructor leaves, after any nonempty sequence of header
  clicks the active column is the last one clicked and the direction is ascending or
  descending; and after any sequence of user events whatever, a grid with an active
  column has a direction other than none.
\<close>

theorem header_click_cycle:
  "(COLUMN_INDEX st = int c \<longrightarrow>
      COLUMN_INDEX (sortByColumnHandler rt c st) = int c \<and>
      SORT (sortByColumnHandler rt c st) = - SORT st) \<and>
   (COLUMN_INDEX st \<noteq> int c \<longrightarrow>
      COLUMN_INDEX (sortByColumnHandler rt c st) = int c \<and>
      SORT (sortByColumnHandler rt c st) = 1) \<and>
   (cs \<noteq> [] \<and> (\<forall>c \<in> set cs. c < length ths) \<longrightarrow>
      (let st' = run rt (EmployeesTable ths rows cmps) (map HeaderClick cs)
       in COLUMN_INDEX st' = int (last cs) \<and> (SORT st' = 1 \<or> SORT st' = - 1))) \<and>
   (let st' = run rt (EmployeesTable ths rows cmps) evs
    in 0 \<le> COLUMN_INDEX st' \<longrightarrow> SORT st' = 1 \<or> SORT st' = - 1)"
proof -
  have inv: "sorter_inv (run rt (EmployeesTable ths rows cmps) evs)" for evs
    by (rule run_inv) (rule EmployeesTable_inv)
  have last: "COLUMN_INDEX (run rt (EmployeesTable ths rows cmps) (map HeaderClick cs)) = int (last cs)"
    if "cs \<noteq> []" "\<forall>c \<in> set cs. c < length ths"
    using clicks_last [of cs "EmployeesTable ths rows cmps" rt] that by simp
  show ?thesis
    using inv [of evs] inv [of "map HeaderClick cs"] last
    by (auto simp: handler_sorter Let_def sorter_inv_def)
qed

theorem header_click_cycle_witness:
  "\<forall>rt. COLUMN_INDEX (run rt (EmployeesTable [[], [], []] [] [])
                 [HeaderClick 0, HeaderClick 0, HeaderClick 2]) = 2 \<and>
        SORT (run rt (EmployeesTable [[], [], []] [] [])
                 [HeaderClick 0, HeaderClick 0, HeaderClick 2]) = 1 \<and>
        SORT (run rt (EmployeesTable [[], [], []] [] []) [HeaderClick 0, HeaderClick 0]) = - 1 \<and>
        SORT (run rt (EmployeesTable [[], [], []] [] []) [HeaderClick 0]) = 1"
proof
  fix rt
  let ?g = "EmployeesTable [[], [], []] [] []"
  have g: "COLUMN_INDEX ?g = - 1" "SORT ?g = 0" "length (header ?g) = 3"
    by (simp_all add: EmployeesTable_def)
  have r1: "run rt ?g [HeaderClick 0] = sortByColumnHandler rt 0 ?g"
    by (simp add: run_def step_def g)
  have r2: "run rt ?g [HeaderClick 0, HeaderClick 0] =
      sortByColumnHandler rt 0 (sortByColumnHandler rt 0 ?g)"
    by (simp add: run_def step_def g)
  have r3: "run rt ?g [HeaderClick 0, HeaderClick 0, HeaderClick 2] =
      sortByColumnHandler rt 2 (sortByColumnHandler rt 0 (sortByColumnHandler rt 0 ?g))"
    by (simp add: run_def step_def g)
  have a: "COLUMN_INDEX (sortByColumnHandler rt 0 ?g) = 0 \<and> SORT (sortByColumnHandler rt 0 ?g) = 1"
    using header_click_cycle [of ?g 0 rt] g by simp
  have b: "SORT (sortByColumnHandler rt 0 (sortByColumnHandler rt 0 ?g)) = - 1 \<and>
           COLUMN_INDEX (sortByColumnHandler rt 0 (sortByColumnHandler rt 0 ?g)) = 0"
    using header_click_cycle [of "sortByColumnHandler rt 0 ?g" 0 rt] a by simp
  have c: "SORT (sortByColumnHandler rt 2 (sortByColumnHandler rt 0 (sortByColumnHandler rt 0 ?g))) = 1"
    using header_click_cycle [of "sortByColumnHandler rt 0 (sortByColumnHandler rt 0 ?g)" 2 rt] b
    by simp
  have "[0, 0, 2] \<noteq> [] \<and> (\<forall>c \<in> set [0, 0, 2 :: nat]. c < length [[], [], [] :: string list])"
    by simp
  with header_click_cycle [where cs = "[0, 0, 2]" and ths = "[[], [], []]" and rt = rt
      and rows = "[]" and cmps = "[]"]
  have "COLUMN_INDEX (run rt ?g (map HeaderClick [0, 0, 2])) = int (last [0, 0, 2])"
    unfolding Let_def by blast
  then have d: "COLUMN_INDEX (run rt ?g [HeaderClick 0, HeaderClick 0, HeaderClick 2]) = 2"
    by simp
  show "COLUMN_INDEX (run rt ?g [HeaderClick 0, HeaderClick 0, HeaderClick 2]) = 2 \<and>
        SORT (run rt ?g [HeaderClick 0, HeaderClick 0, HeaderClick 2]) = 1 \<and>
        SORT (run rt ?g [HeaderClick 0, HeaderClick 0]) = - 1 \<and>
        SORT (run rt ?g [HeaderClick 0]) = 1"
    using a b c d by (simp add: r1 r2 r3)
qed

section \<open>The inline edit lifecycle: properties\<close>

lemma set_insert_sorted: "set (insert_sorted cmp x ys) = insert x (set ys)"
  by (induction ys) auto

lemma set_array_sort: "set (array_sort cmp xs) = set xs"
  unfolding array_sort_def by (induction xs) (simp_all add: set_insert_sorted)

lemma length_insert_sorted: "length (insert_sorted cmp x ys) = Suc (length ys)"
  by (induction ys) auto

lemma length_array_sort: "length (array_sort cmp xs) = length xs"
  unfolding array_sort_def by (induction xs) (simp_all add: length_insert_sorted)

lemma sortByColumn_tbody:
  "set (tbody (sortByColumn rt ci st)) = set (tbody st)"
  "length (tbody (sortByColumn rt ci st)) = length (tbody st)"
  by (simp_all add: sortByColumn_def Let_def set_array_sort length_array_sort)

lemma in_document_set: "in_document st e \<longleftrightarrow> (\<exists>row \<in> set (tbody st). EditorTd e \<in> set row)"
  by (simp add: in_document_def list_ex_iff)

lemma onComplete_fields [simp]:
  "cell_text (onComplete rt st) = cell_text st"
  "cell_hidden (onComplete rt st) = cell_hidden st"
  "editors (onComplete rt st) = editors st"
  "activeEditor (onComplete rt st) = None"
  "notifications (onComplete rt st) = notifications st"
  "set (tbody (onComplete rt st)) = set (tbody st)"
  by (simp_all add: onComplete_def Let_def sortByColumn_tbody)

lemma elem_value_cong:
  "form_value st' = form_value st \<Longrightarrow> editors st' = editors st \<Longrightarrow>
   elem_value st' el = elem_value st el"
  by (cases el) (simp_all add: elem_value_def)

lemma validate_bound_cong:
  "vfield st' = vfield st \<Longrightarrow> form_value st' = form_value st \<Longrightarrow> editors st' = editors st \<Longrightarrow>
   validate_bound st' k = validate_bound st k"
  using elem_value_cong [of st' st] by (simp add: validate_bound_def)

lemma complete_rejects:
  assumes "input_validator (editors st e) = Some k" and "\<not> success (validate_bound st k)"
  shows "complete rt e st =
           st\<lparr>notifications := notifications st @
                 [(''Validation failed'', message (validate_bound st k), NOTIFICATION_TYPE_ERROR)]\<rparr>"
  using assms by (simp add: complete_def Let_def pushNotification_def)

lemma complete_commits:
  assumes "input_validator (editors st e) = Some k" and "success (validate_bound st k)"
  shows "cell_text (complete rt e st) (originElement (editors st e)) = input_value (editors st e)"
    and "\<not> in_document (complete rt e st) e"
    and "\<not> cell_hidden (complete rt e st) (originElement (editors st e))"
    and "activeEditor (complete rt e st) = None"
  using assms by (simp_all add: complete_def Let_def in_document_set)

lemma complete_accepts:
  assumes "input_validator (editors st e) = Some k" and "success (validate_bound st k)"
  shows "complete rt e st =
     onComplete rt
       (st\<lparr>notifications := notifications st @
              [(''Success'', ''New row was successfully added.'', NOTIFICATION_TYPE_SUCCESS)],
           cell_text := (cell_text st)(originElement (editors st e) := input_value (editors st e)),
           tbody := map (removeAll (EditorTd e)) (tbody st),
           cell_hidden := (cell_hidden st)(originElement (editors st e) := False)\<rparr>)"
  using assms by (simp add: complete_def Let_def pushNotification_def)

text \<open>
  C6. When the validator attached to the input of an editor rejects at a completion
  attempt, \<^verbatim>\<open>complete()\<close> changes nothing but the notifier's log, which gains the
  failure with the validator's message: the editor's control stays in the document,
  the text of the origin cell, the active editor and every other field of the grid
  are as before. The attempt can be made again: once the user has changed the value
  to one the validator accepts, completion writes it to the origin cell, removes the
  control from the document and shows the cell.
\<close>

theorem failed_completion_keeps_editing:
  assumes "input_validator (editors st e) = Some k" and "\<not> success (validate_bound st k)"
  shows "complete rt e st =
           st\<lparr>notifications := notifications st @
                 [(''Validation failed'', message (validate_bound st k), NOTIFICATION_TYPE_ERROR)]\<rparr> \<and>
         (\<forall>v. let st1 = step rt (complete rt e st) (TypeInto e v);
                  st2 = complete rt e st1
              in in_document st e \<and> success (validate_bound st1 k) \<longrightarrow>
                 cell_text st2 (originElement (editors st e)) = v \<and>
                 \<not> in_document st2 e \<and>
                 \<not> cell_hidden st2 (originElement (editors st e)) \<and>
                 activeEditor st2 = None)"
proof -
  let ?st' = "complete rt e st"
  have r: "?st' = st\<lparr>notifications := notifications st @
                 [(''Validation failed'', message (validate_bound st k), NOTIFICATION_TYPE_ERROR)]\<rparr>"
    using assms by (rule complete_rejects)
  have again: "cell_text (complete rt e (step rt ?st' (TypeInto e v))) (originElement (editors st e)) = v \<and>
      \<not> in_document (complete rt e (step rt ?st' (TypeInto e v))) e \<and>
      \<not> cell_hidden (complete rt e (step rt ?st' (TypeInto e v))) (originElement (editors st e)) \<and>
      activeEditor (complete rt e (step rt ?st' (TypeInto e v))) = None"
    if d: "in_document st e" and ok: "success (validate_bound (step rt ?st' (TypeInto e v)) k)" for v
  proof -
    let ?st1 = "step rt ?st' (TypeInto e v)"
    have d': "in_document ?st' e" using d by (simp add: r in_document_def)
    have e1: "editors ?st1 e = (editors st e)\<lparr>input_value := v\<rparr>"
      using d' by (simp add: step_def) (simp add: r)
    then have iv: "input_validator (editors ?st1 e) = Some k"
      and org: "originElement (editors ?st1 e) = originElement (editors st e)"
      and val: "input_value (editors ?st1 e) = v"
      using assms(1) by simp_all
    from complete_commits [OF iv ok, of rt] show ?thesis
      by (simp add: org val)
  qed
  from r again show ?thesis by (simp add: Let_def)
qed


theorem failed_completion_keeps_editing_witness:
  "\<forall>rt. (let st = run rt sample_table [DblClick (Cell 0), TypeInto 10 ''ab''];
             st2 = complete rt 10 (step rt (complete rt 10 st) (TypeInto 10 ''Alicia''))
         in input_validator (editors st 10) = Some 0 \<and>
            \<not> success (validate_bound st 0) \<and>
            complete rt 10 st =
              st\<lparr>notifications := notifications st @
                    [(''Validation failed'', ''Minimum name length is 4'', NOTIFICATION_TYPE_ERROR)]\<rparr> \<and>
            cell_text st2 0 = ''Alicia'' \<and> \<not> in_document st2 10 \<and> activeEditor st2 = None)"
proof
  fix rt
  let ?st = "run rt sample_table [DblClick (Cell 0), TypeInto 10 ''ab'']"
  have a: "input_validator (editors ?st 10) = Some 0" by code_simp
  have b: "\<not> success (validate_bound ?st 0)" by code_simp
  have m: "message (validate_bound ?st 0) = ''Minimum name length is 4''" by code_simp
  have o: "originElement (editors ?st 10) = 0" by code_simp
  have d: "in_document ?st 10" by code_simp
  have ok: "success (validate_bound (step rt (complete rt 10 ?st) (TypeInto 10 ''Alicia'')) 0)"
    by code_simp
  note T = failed_completion_keeps_editing [OF a b, of rt]
  have p1: "complete rt 10 ?st =
           ?st\<lparr>notifications := notifications ?st @
                 [(''Validation failed'', message (validate_bound ?st 0), NOTIFICATION_TYPE_ERROR)]\<rparr>"
    using T by (rule conjunct1)
  have p2: "cell_text (complete rt 10 (step rt (complete rt 10 ?st) (TypeInto 10 ''Alicia''))) (originElement (editors ?st 10)) = ''Alicia'' \<and>
         \<not> in_document (complete rt 10 (step rt (complete rt 10 ?st) (TypeInto 10 ''Alicia''))) 10 \<and>
         activeEditor (complete rt 10 (step rt (complete rt 10 ?st) (TypeInto 10 ''Alicia''))) = None"
    using T [THEN conjunct2, THEN spec, of "''Alicia''"] d ok by (simp add: Let_def)
  from p1 p2 a b m o
  show "let st = ?st;
            st2 = complete rt 10 (step rt (complete rt 10 st) (TypeInto 10 ''Alicia''))
        in input_validator (editors st 10) = Some 0 \<and>
            \<not> success (validate_bound st 0) \<and>
            complete rt 10 st =
              st\<lparr>notifications := notifications st @
                    [(''Validation failed'', ''Minimum name length is 4'', NOTIFICATION_TYPE_ERROR)]\<rparr> \<and>
            cell_text st2 0 = ''Alicia'' \<and> \<not> in_document st2 10 \<and> activeEditor st2 = None"
    by (simp add: Let_def)
qed

text \<open>
  The two listeners of an editor's input that reach \<^verbatim>\<open>complete()\<close>: on a rejected
  attempt the document, the cell texts and the active editor are as before, by focus
  loss and by the Enter key alike. (The key listener unregisters the focus listener
  before it calls \<^verbatim>\<open>complete()\<close>, so after a rejected Enter the next attempt is by
  Enter again, or by the next double click.)
\<close>

lemma rejected_attempt_by_event:
  assumes "input_validator (editors st e) = Some k" and "\<not> success (validate_bound st k)"
    and "ev = FocusOut e \<or> ev = KeyEnter e"
  shows "tbody (step rt st ev) = tbody st \<and> cell_text (step rt st ev) = cell_text st \<and>
         activeEditor (step rt st ev) = activeEditor st \<and>
         notifications (step rt st ev) \<in>
           {notifications st,
            notifications st @
              [(''Validation failed'', message (validate_bound st k), NOTIFICATION_TYPE_ERROR)]}"
proof -
  let ?st' = "st\<lparr>editors := (editors st)(e := (editors st e)\<lparr>focusout_listener := False\<rparr>)\<rparr>"
  have v: "validate_bound ?st' k = validate_bound st k"
    unfolding validate_bound_def
    by (rule arg_cong [where f = "validate _"], cases "vfield st k")
      (auto simp: elem_value_def split: elem.splits)
  have "input_validator (editors ?st' e) = Some k" using assms(1) by simp
  from complete_rejects [OF this, of rt] assms(2) v
  have "complete rt e ?st' =
      ?st'\<lparr>notifications := notifications ?st' @
            [(''Validation failed'', message (validate_bound st k), NOTIFICATION_TYPE_ERROR)]\<rparr>"
    by simp
  with complete_rejects [OF assms(1,2), of rt] assms(3) show ?thesis
    by (auto simp: step_def)
qed

text \<open>
  The constructor at the misconfiguration guard: it does not throw, and it leaves the
  document and every field of the grid as they were.
\<close>

lemma InlineEditor_no_schema:
  "field_at FIELDS (cellIndex st t) = None \<Longrightarrow> InlineEditor t st = Inr (Inert, st)"
  by (simp add: InlineEditor_def)

text \<open>
  C1, where the code departs from the claim. The \<^verbatim>\<open>dblclick\<close> listener does run the
  completion of the active editor before it builds the next one, but it builds the
  next one whatever that completion did. On the sample table the user opens an editor
  on the name cell of the first row (editor 10), types \<^verbatim>\<open>ab\<close> and double-clicks the
  position cell of the second row, which first takes the focus from the input: the
  completion of editor 10 is rejected at the focus loss and again in the listener
  (the name is shorter than 4) and its control stays, editor 11 opens, and two editor
  controls stand in the document, the first no longer referred to by
  \<^verbatim>\<open>_activeEditor\<close>.
\<close>

theorem two_editors_coexist:
  "\<forall>rt. (let st = run rt sample_table
                    [DblClick (Cell 0), TypeInto 10 ''ab'', FocusOut 10, DblClick (Cell 6)]
         in editor_controls st = [10, 11] \<and>
            tbody st = [[Td 0, EditorTd 10, Td 1, Td 2, Td 3, Td 4],
                        [Td 5, Td 6, EditorTd 11, Td 7, Td 8, Td 9]] \<and>
            activeEditor st = Some (Live 11) \<and>
            notifications st =
              [(''Validation failed'', ''Minimum name length is 4'', NOTIFICATION_TYPE_ERROR),
               (''Validation failed'', ''Minimum name length is 4'', NOTIFICATION_TYPE_ERROR)])"
proof
  fix rt
  let ?st = "run rt sample_table
               [DblClick (Cell 0), TypeInto 10 ''ab'', FocusOut 10, DblClick (Cell 6)]"
  have "editor_controls ?st = [10, 11]" by code_simp
  moreover have "tbody ?st = [[Td 0, EditorTd 10, Td 1, Td 2, Td 3, Td 4],
                        [Td 5, Td 6, EditorTd 11, Td 7, Td 8, Td 9]]" by code_simp
  moreover have "activeEditor ?st = Some (Live 11)" by code_simp
  moreover have "notifications ?st =
              [(''Validation failed'', ''Minimum name length is 4'', NOTIFICATION_TYPE_ERROR),
               (''Validation failed'', ''Minimum name length is 4'', NOTIFICATION_TYPE_ERROR)]"
    by code_simp
  ultimately show "let st = ?st
         in editor_controls st = [10, 11] \<and>
            tbody st = [[Td 0, EditorTd 10, Td 1, Td 2, Td 3, Td 4],
                        [Td 5, Td 6, EditorTd 11, Td 7, Td 8, Td 9]] \<and>
            activeEditor st = Some (Live 11) \<and>
            notifications st =
              [(''Validation failed'', ''Minimum name length is 4'', NOTIFICATION_TYPE_ERROR),
               (''Validation failed'', ''Minimum name length is 4'', NOTIFICATION_TYPE_ERROR)]"
    by (simp add: Let_def)
qed

text \<open>
  C2, where the code departs from the claim. On a table with six columns, a double
  click on the sixth cell of the row, from the idle state: the constructor returns at
  its guard without throwing, the document is unchanged and nothing is reported, but
  the listener stores the object in \<^verbatim>\<open>_activeEditor\<close>, so the grid is not left
  without an active editor. The next double click calls \<^verbatim>\<open>complete()\<close> on that
  object, which has no target element: the TypeError is caught and shown to the user
  as an error notification.
\<close>

theorem inert_editor_stays_active:
  "\<forall>rt. (let g = EmployeesTable [[], [], [], [], [], []]
                   [[''Alice Ray'', ''Engineer'', ''Tokyo'', ''30'', ''$1,000'', ''remote'']] [];
             st1 = run rt g [DblClick (Cell 5)];
             st2 = run rt g [DblClick (Cell 5), DblClick (Cell 0)]
         in activeEditor g = None \<and> cellIndex g (Cell 5) = Some 5 \<and>
            field_at FIELDS (cellIndex g (Cell 5)) = None \<and>
            activeEditor st1 = Some Inert \<and> tbody st1 = tbody g \<and>
            notifications st1 = [] \<and> uncaught st1 = [] \<and>
            notifications st2 = [(''Error'', TypeError_firstChild, NOTIFICATION_TYPE_ERROR)])"
proof
  fix rt
  let ?g = "EmployeesTable [[], [], [], [], [], []]
                   [[''Alice Ray'', ''Engineer'', ''Tokyo'', ''30'', ''$1,000'', ''remote'']] []"
  let ?st1 = "run rt ?g [DblClick (Cell 5)]"
  let ?st2 = "run rt ?g [DblClick (Cell 5), DblClick (Cell 0)]"
  have "activeEditor ?g = None" by code_simp
  moreover have "cellIndex ?g (Cell 5) = Some 5" by code_simp
  moreover have "field_at FIELDS (cellIndex ?g (Cell 5)) = None" by code_simp
  moreover have "activeEditor ?st1 = Some Inert" by code_simp
  moreover have "tbody ?st1 = tbody ?g" by code_simp
  moreover have "notifications ?st1 = []" by code_simp
  moreover have "uncaught ?st1 = []" by code_simp
  moreover have "notifications ?st2 = [(''Error'', TypeError_firstChild, NOTIFICATION_TYPE_ERROR)]"
    by code_simp
  ultimately show "let g = ?g; st1 = run rt g [DblClick (Cell 5)];
             st2 = run rt g [DblClick (Cell 5), DblClick (Cell 0)]
         in activeEditor g = None \<and> cellIndex g (Cell 5) = Some 5 \<and>
            field_at FIELDS (cellIndex g (Cell 5)) = None \<and>
            activeEditor st1 = Some Inert \<and> tbody st1 = tbody g \<and>
            notifications st1 = [] \<and> uncaught st1 = [] \<and>
            notifications st2 = [(''Error'', TypeError_firstChild, NOTIFICATION_TYPE_ERROR)]"
    by (simp add: Let_def)
qed


section \<open>Form submission: properties\<close>

lemma validate_bound_notifications [simp]:
  "validate_bound (st\<lparr>notifications := ns\<rparr>) k = validate_bound st k"
  by (rule validate_bound_cong) simp_all






text \<open>
  A validator object is shared by the control of the form and the inline editors of
  its column, and \<^verbatim>\<open>bindField\<close> rebinds it: after an inline edit of a name cell the
  name validator reads the input of that editor, which holds the accepted value, and
  not the name control of the form. The submission below, with the name \<^verbatim>\<open>ab\<close> in
  the form, finds no failing validator and appends the row.
\<close>

lemma stale_binding_example:
  "\<forall>rt. (let st = run rt sample_table
                    [DblClick (Cell 0), KeyEnter 10,
                     FormType 0 ''ab'', FormType 1 ''Dev'', FormType 3 ''22'', FormType 4 ''500'']
         in vfield st 0 = Some (EditorInput 10) \<and> form_value st 0 = ''ab'' \<and>
            failing_fields st = [] \<and> length (tbody (saveEmployee rt st)) = 3)"
proof
  fix rt
  let ?st = "run rt sample_table
                    [DblClick (Cell 0), KeyEnter 10,
                     FormType 0 ''ab'', FormType 1 ''Dev'', FormType 3 ''22'', FormType 4 ''500'']"
  have "vfield ?st 0 = Some (EditorInput 10)" by code_simp
  moreover have "form_value ?st 0 = ''ab''" by code_simp
  moreover have "failing_fields ?st = []" by code_simp
  moreover have "length (tbody (saveEmployee rt ?st)) = 3" by code_simp
  ultimately show "let st = ?st
         in vfield st 0 = Some (EditorInput 10) \<and> form_value st 0 = ''ab'' \<and>
            failing_fields st = [] \<and> length (tbody (saveEmployee rt st)) = 3"
    by (simp add: Let_def)
qed


end
